theory Spec2Isabelle
  imports Main "HOL-Library.Word"
begin

unbundle bit_operations_syntax

section \<open>Go values used by package utils\<close>

text \<open>
  A Go \<open>string\<close> is a sequence of bytes, and so is a HOL \<^typ>\<open>string\<close> (a list of
  8-bit characters). A \<open>[]byte\<close> is a list of 8-bit words; the conversion
  \<open>[]byte(s)\<close> keeps every byte.
\<close>

type_synonym byte = "8 word"

definition bytes_of_string :: "string \<Rightarrow> byte list" where
  "bytes_of_string s = map of_char s"

text \<open>A run-time panic of the Go program, as a value.\<close>

datatype go_panic = NilDereference

text \<open>
  An \<open>error\<close> value. \<open>NilError\<close> is the nil interface. \<open>OpError\<close> is a non-nil
  \<open>*net.OpError\<close> with its fields \<open>Op\<close> and \<open>Err\<close> (the fields \<open>Net\<close>,
  \<open>Source\<close> and \<open>Addr\<close> are never read here), and \<open>NilOpError\<close> the nil pointer
  of that type stored in the interface. \<open>SyscallError\<close> is a non-nil
  \<open>*os.SyscallError\<close> with \<open>Syscall\<close> and \<open>Err\<close>, \<open>NilSyscallError\<close> the nil
  pointer of that type, and \<open>Errno\<close> a \<open>syscall.Errno\<close>. \<open>OtherError\<close> stands for
  a value of any other error type: its two fields say what its methods \<open>Timeout\<close> and
  \<open>Temporary\<close> return, \<open>None\<close> when the type has no such method.
\<close>

type_synonym Errno = "64 word"

datatype go_error =
    NilError
  | OpError string go_error
  | NilOpError
  | SyscallError string go_error
  | NilSyscallError
  | Errno Errno
  | OtherError "bool option" "bool option"

section \<open>Find\<close>

text \<open>
  The argument \<open>x\<close> of \<open>Find\<close> is an \<open>interface{}\<close>. \<open>NilValue\<close> is the nil
  interface, for which \<open>reflect.TypeOf(x)\<close> is nil and the call of \<open>Kind\<close> panics;
  \<open>StringValue\<close> is a \<open>string\<close>, \<open>StringSlice\<close> a \<open>[]string\<close>, and \<open>OtherKind\<close>
  a value whose kind is neither \<open>reflect.String\<close> nor \<open>reflect.Slice\<close>, for which no
  case of the switch is taken.
\<close>

datatype go_value = NilValue | StringValue string | StringSlice "string list" | OtherKind

text \<open>
  \<open>strings.ToLower\<close> on the bytes \<open>A\<close> .. \<open>Z\<close>; every other byte is kept. (On
  non-ASCII input Go maps whole runes, none of which becomes \<open>o\<close> or \<open>r\<close>, so the
  comparison with \<open>"or"\<close> in \<open>Find\<close> is the same.)
\<close>

definition toLower_byte :: "char \<Rightarrow> char" where
  "toLower_byte c =
     (let n = (of_char c :: nat) in if 65 \<le> n \<and> n \<le> 90 then char_of (n + 32) else c)"

definition ToLower :: "string \<Rightarrow> string" where
  "ToLower s = map toLower_byte s"

text \<open>
  The \<open>reflect.String\<close> case: \<open>r\<close> starts false; the loop over \<open>a\<close> sets it and
  stops at the first \<open>n\<close> equal to \<open>x\<close>.
\<close>

fun Find_string :: "string list \<Rightarrow> string \<Rightarrow> bool" where
  "Find_string [] x = False"
| "Find_string (n # a) x = (if x = n then True else Find_string a x)"

text \<open>
  The \<open>reflect.Slice\<close> case, from index \<open>i\<close> on; the last argument is the current
  value of \<open>r\<close>. Each round overwrites \<open>r\<close> with the result of the recursive call of
  \<open>Find\<close> on the element (a string, so the call takes the \<open>reflect.String\<close> case) and
  breaks when the operator is \<open>or\<close> and \<open>r\<close> holds.
\<close>

fun Find_slice :: "string list \<Rightarrow> string \<Rightarrow> string list \<Rightarrow> bool \<Rightarrow> bool" where
  "Find_slice a op [] r = r"
| "Find_slice a op (y # ys) r =
     (let r' = Find_string a y
      in if ToLower op = ''or'' \<and> r' then r' else Find_slice a op ys r')"

definition Find :: "string list \<Rightarrow> go_value \<Rightarrow> string \<Rightarrow> go_panic + bool" where
  "Find a x op =
     (case x of
        NilValue \<Rightarrow> Inl NilDereference
      | StringValue s \<Rightarrow> Inr (Find_string a s)
      | StringSlice xs \<Rightarrow> Inr (Find_slice a op xs False)
      | OtherKind \<Rightarrow> Inr False)"

section \<open>Secret\<close>

type_synonym Secret = string

text \<open>
  \<open>MarshalYAML\<close> returns an \<open>interface{}\<close> that is the string \<open><secret>\<close> or nil
  (\<open>None\<close>), and a nil error.
\<close>

definition MarshalYAML :: "Secret \<Rightarrow> string option \<times> go_error" where
  "MarshalYAML s = (if s \<noteq> [] then (Some ''<secret>'', NilError) else (None, NilError))"

text \<open>
  \<open>MarshalJSON\<close> returns the ten bytes of the raw string literal, the marker between
  two double quotes (byte \<open>0x22\<close>), or a nil slice (\<open>None\<close>), and a nil error.
\<close>

definition MarshalJSON :: "Secret \<Rightarrow> byte list option \<times> go_error" where
  "MarshalJSON s =
     (if s \<noteq> [] then (Some (bytes_of_string ([CHR 0x22] @ ''<secret>'' @ [CHR 0x22])), NilError)
      else (None, NilError))"

section \<open>Hash, HashFNV and RandToken\<close>

text \<open>
  \<open>fmt.Sprintf("%x", b)\<close> for a byte slice \<open>b\<close>: two digits of
  \<open>0123456789abcdef\<close> for each byte, the high four bits first.
\<close>

definition ldigits :: string where
  "ldigits = ''0123456789abcdef''"

definition hex_byte :: "byte \<Rightarrow> string" where
  "hex_byte c = [ldigits ! unat (drop_bit 4 c), ldigits ! unat (c AND 0xF)]"

definition Sprintf_x :: "byte list \<Rightarrow> string" where
  "Sprintf_x b = concat (map hex_byte b)"

text \<open>The lowercase hexadecimal digits, for the statements about rendered output.\<close>

definition lower_hex :: "char \<Rightarrow> bool" where
  "lower_hex c = (c \<in> set ''0123456789abcdef'')"

text \<open>
  \<open>crypto.Hash\<close> is an unsigned integer; the constants are numbered from 1 in the
  order of their declaration in package \<open>crypto\<close>.
\<close>

type_synonym crypto_Hash = "64 word"

definition MD4 :: crypto_Hash where "MD4 = 1"
definition MD5 :: crypto_Hash where "MD5 = 2"
definition SHA1 :: crypto_Hash where "SHA1 = 3"
definition SHA224 :: crypto_Hash where "SHA224 = 4"
definition SHA256 :: crypto_Hash where "SHA256 = 5"
definition SHA384 :: crypto_Hash where "SHA384 = 6"
definition SHA512 :: crypto_Hash where "SHA512 = 7"

text \<open>
  The digest algorithms themselves belong to Go's standard library and are parameters
  of the model: \<open>md5.Sum\<close>, \<open>sha1.Sum\<close>, \<open>sha256.Sum256\<close> and \<open>sha512.Sum512\<close>
  map the data to an array of 16, 20, 32 and 64 bytes, here a word of as many bits,
  whose bytes are read from the most significant one down.
\<close>

record crypto_lib =
  md5_Sum :: "byte list \<Rightarrow> 128 word"
  sha1_Sum :: "byte list \<Rightarrow> 160 word"
  sha256_Sum256 :: "byte list \<Rightarrow> 256 word"
  sha512_Sum512 :: "byte list \<Rightarrow> 512 word"

definition array_bytes :: "'a::len word \<Rightarrow> byte list" where
  "array_bytes w = map (\<lambda>i. ucast (drop_bit (8 * i) w)) (rev [0..<LENGTH('a) div 8])"

text \<open>
  A \<open>hash.Hash\<close> made by one of the four \<open>New\<close> functions, with the bytes written to
  it so far. \<open>Write\<close> appends; \<open>Sum\<close> is \<open>h.Sum(nil)\<close>, the digest of what was
  written.
\<close>

datatype hash_Hash =
    md5_digest "byte list"
  | sha1_digest "byte list"
  | sha256_digest "byte list"
  | sha512_digest "byte list"

fun Write :: "hash_Hash \<Rightarrow> byte list \<Rightarrow> hash_Hash" where
  "Write (md5_digest d) p = md5_digest (d @ p)"
| "Write (sha1_digest d) p = sha1_digest (d @ p)"
| "Write (sha256_digest d) p = sha256_digest (d @ p)"
| "Write (sha512_digest d) p = sha512_digest (d @ p)"

fun Sum :: "crypto_lib \<Rightarrow> hash_Hash \<Rightarrow> byte list" where
  "Sum lib (md5_digest d) = array_bytes (md5_Sum lib d)"
| "Sum lib (sha1_digest d) = array_bytes (sha1_Sum lib d)"
| "Sum lib (sha256_digest d) = array_bytes (sha256_Sum256 lib d)"
| "Sum lib (sha512_digest d) = array_bytes (sha512_Sum512 lib d)"

text \<open>
  \<open>Hash\<close>: the handle \<open>h\<close> is nil (\<open>None\<close>) until a case of the switch sets it; the
  default case is empty, and \<open>h.Write\<close> on the nil handle panics.
\<close>

definition Hash :: "crypto_lib \<Rightarrow> string \<Rightarrow> crypto_Hash \<Rightarrow> go_panic + string" where
  "Hash lib s f =
     (let h = (if f = MD5 then Some (md5_digest [])
               else if f = SHA1 then Some (sha1_digest [])
               else if f = SHA256 then Some (sha256_digest [])
               else if f = SHA512 then Some (sha512_digest [])
               else None)
      in case h of
           None \<Rightarrow> Inl NilDereference
         | Some h0 \<Rightarrow> Inr (Sprintf_x (Sum lib (Write h0 (bytes_of_string s)))))"

text \<open>The 64-bit FNV-1a hash of package \<open>hash/fnv\<close>: \<open>New64a\<close>, \<open>Write\<close>, \<open>Sum64\<close>.\<close>

definition offset64 :: "64 word" where
  "offset64 = 14695981039346656037"

definition prime64 :: "64 word" where
  "prime64 = 1099511628211"

fun sum64a_Write :: "64 word \<Rightarrow> byte list \<Rightarrow> 64 word" where
  "sum64a_Write hash [] = hash"
| "sum64a_Write hash (c # data) = sum64a_Write ((hash XOR ucast c) * prime64) data"

text \<open>
  The conversion \<open>string(v)\<close> of an integer: the UTF-8 encoding of the code point
  \<open>v\<close>, and that of U+FFFD for a value that is no valid code point (above U+10FFFF or
  a surrogate).
\<close>

definition string_of_uint64 :: "64 word \<Rightarrow> string" where
  "string_of_uint64 v =
     (let r = unat v in
      if r \<le> 0x7F then [char_of r]
      else if r \<le> 0x7FF then [char_of (0xC0 + r div 64), char_of (0x80 + r mod 64)]
      else if r > 0x10FFFF \<or> (0xD800 \<le> r \<and> r \<le> 0xDFFF) then [CHR 0xEF, CHR 0xBF, CHR 0xBD]
      else if r \<le> 0xFFFF then
        [char_of (0xE0 + r div 4096), char_of (0x80 + r div 64 mod 64), char_of (0x80 + r mod 64)]
      else
        [char_of (0xF0 + r div 262144), char_of (0x80 + r div 4096 mod 64),
         char_of (0x80 + r div 64 mod 64), char_of (0x80 + r mod 64)])"

definition HashFNV :: "string \<Rightarrow> string" where
  "HashFNV s = string_of_uint64 (sum64a_Write offset64 (bytes_of_string s))"

text \<open>
  \<open>rand.Read(b)\<close> reads from the system's random source, which is outside the
  program: \<open>delivered\<close> are the bytes the source hands over before it stops, and
  \<open>failure\<close> the error it stops with. The call overwrites the first \<open>n\<close> bytes of
  \<open>b\<close> and returns \<open>n\<close>, with a nil error exactly when \<open>b\<close> was filled.
\<close>

record random_source =
  delivered :: "byte list"
  failure :: go_error

definition rand_Read :: "random_source \<Rightarrow> byte list \<Rightarrow> byte list \<times> nat \<times> go_error" where
  "rand_Read src b =
     (let n = min (length (delivered src)) (length b)
      in (take n (delivered src) @ drop n b, n, if n = length b then NilError else failure src))"

text \<open>\<open>RandToken\<close>: both results of \<open>rand.Read\<close> are assigned to the blank identifier.\<close>

definition RandToken :: "random_source \<Rightarrow> string" where
  "RandToken src =
     (let b = replicate 16 0;
          (b', _, _) = rand_Read src b
      in Sprintf_x b')"

section \<open>RetryableError\<close>

text \<open>The error numbers of package \<open>syscall\<close> on Linux.\<close>

definition EAGAIN :: Errno where "EAGAIN = 11"
definition EWOULDBLOCK :: Errno where "EWOULDBLOCK = 11"
definition ECONNRESET :: Errno where "ECONNRESET = 104"
definition ETIMEDOUT :: Errno where "ETIMEDOUT = 110"
definition ECONNREFUSED :: Errno where "ECONNREFUSED = 111"

text \<open>
  The method \<open>Timeout\<close> as the standard library defines it on each type: \<open>None\<close>
  when the value has no such method, otherwise what the call does, a panic or a
  boolean. \<open>Errno.Timeout\<close> holds for \<open>EAGAIN\<close>, \<open>EWOULDBLOCK\<close> and \<open>ETIMEDOUT\<close>.
  \<open>SyscallError.Timeout\<close> reads the field \<open>Err\<close> of its receiver and asks the wrapped
  error, if that has the method. \<open>OpError.Timeout\<close> reads \<open>Err\<close> too; when it
  holds a \<open>*os.SyscallError\<close> it reads the field \<open>Err\<close> of that one and asks the
  error wrapped there, and otherwise it asks the wrapped error. Reading a field of a
  nil receiver panics.
\<close>

fun Timeout :: "go_error \<Rightarrow> (go_panic + bool) option" where
  "Timeout NilError = None"
| "Timeout (Errno e) = Some (Inr (e = EAGAIN \<or> e = EWOULDBLOCK \<or> e = ETIMEDOUT))"
| "Timeout NilSyscallError = Some (Inl NilDereference)"
| "Timeout (SyscallError sc err) =
     Some (case Timeout err of Some t \<Rightarrow> t | None \<Rightarrow> Inr False)"
| "Timeout NilOpError = Some (Inl NilDereference)"
| "Timeout (OpError op NilSyscallError) = Some (Inl NilDereference)"
| "Timeout (OpError op (SyscallError sc err)) =
     Some (case Timeout err of Some t \<Rightarrow> t | None \<Rightarrow> Inr False)"
| "Timeout (OpError op err) =
     Some (case Timeout err of Some t \<Rightarrow> t | None \<Rightarrow> Inr False)"
| "Timeout (OtherError t tmp) = map_option Inr t"

text \<open>
  The type assertion \<open>err.(net.Error)\<close> succeeds when the type of the value has the
  methods \<open>Timeout\<close> and \<open>Temporary\<close>: \<open>*net.OpError\<close> and \<open>syscall.Errno\<close> have
  both, \<open>*os.SyscallError\<close> has no \<open>Temporary\<close>. A nil pointer has the methods of its
  type.
\<close>

fun is_net_Error :: "go_error \<Rightarrow> bool" where
  "is_net_Error NilError = False"
| "is_net_Error (OpError op err) = True"
| "is_net_Error NilOpError = True"
| "is_net_Error (SyscallError sc err) = False"
| "is_net_Error NilSyscallError = False"
| "is_net_Error (Errno e) = True"
| "is_net_Error (OtherError t tmp) = (t \<noteq> None \<and> tmp \<noteq> None)"

text \<open>
  The condition of the first \<open>if\<close>: \<open>ok && netErr.Timeout()\<close>, which calls
  \<open>Timeout\<close> only when the type assertion succeeded.
\<close>

definition timeout_test :: "go_error \<Rightarrow> go_panic + bool" where
  "timeout_test err =
     (if is_net_Error err then (case Timeout err of Some t \<Rightarrow> t | None \<Rightarrow> Inr False)
      else Inr False)"

text \<open>
  \<open>RetryableError\<close>: a panic of the first test ends the call. The case
  \<open>*net.OpError\<close> of the type switch also takes the nil pointer of that type, and
  reading \<open>t.Op\<close> from it panics.
\<close>

definition RetryableError :: "go_error \<Rightarrow> go_panic + bool" where
  "RetryableError err =
     (case timeout_test err of
        Inl p \<Rightarrow> Inl p
      | Inr timed_out \<Rightarrow>
          if timed_out then Inr True
          else (case err of
                  OpError op e \<Rightarrow>
                    (if op = ''dial'' then Inr False
                     else if op = ''read'' then Inr True
                     else Inr False)
                | NilOpError \<Rightarrow> Inl NilDereference
                | Errno t \<Rightarrow> (if t = ECONNREFUSED then Inr True else Inr False)
                | _ \<Rightarrow> Inr False))"

text \<open>
  The vocabulary of the specification, read on Go's error values: a failure is flagged
  as a timeout when the first test of \<open>RetryableError\<close> holds of it, and is a
  non-timeout failure when that test is evaluated and fails; its operation-kind
  tag is the field \<open>Op\<close> of a \<open>*net.OpError\<close>; its OS-level error code is the
  \<open>syscall.Errno\<close> it is or wraps.
\<close>

definition flagged_timeout :: "go_error \<Rightarrow> bool" where
  "flagged_timeout err = (is_net_Error err \<and> Timeout err = Some (Inr True))"

definition non_timeout :: "go_error \<Rightarrow> bool" where
  "non_timeout err = (timeout_test err = Inr False)"

fun op_kind :: "go_error \<Rightarrow> string option" where
  "op_kind (OpError op err) = Some op"
| "op_kind err = None"

fun os_code :: "go_error \<Rightarrow> Errno option" where
  "os_code (Errno e) = Some e"
| "os_code (OpError op err) = os_code err"
| "os_code (SyscallError sc err) = os_code err"
| "os_code err = None"

text \<open>An error value that holds no nil pointer, neither itself nor wrapped.\<close>

fun nil_free :: "go_error \<Rightarrow> bool" where
  "nil_free NilOpError = False"
| "nil_free NilSyscallError = False"
| "nil_free (OpError op err) = nil_free err"
| "nil_free (SyscallError sc err) = nil_free err"
| "nil_free err = True"

section \<open>Properties of Find\<close>

lemma Find_string_mem: "Find_string a x = (x \<in> set a)"
  by (induction a) auto

lemma Find_slice_not_or:
  "ToLower op \<noteq> ''or'' \<Longrightarrow> Find_slice a op xs r = (if xs = [] then r else last xs \<in> set a)"
  by (induction xs arbitrary: r) (simp_all add: Find_string_mem)

text \<open>
  Claim C10. When the operator is not \<open>or\<close> in any letter case, \<open>Find\<close> on a non-empty
  list of strings is true exactly when the last element of the list is a member of
  \<open>a\<close>: earlier results are overwritten, so \<open>AND\<close> does not test all elements. On a
  plain string the result is membership in \<open>a\<close>, whatever the operator.
\<close>

theorem Find_last_element_decides:
  "(xs \<noteq> [] \<and> ToLower op \<noteq> ''or'' \<longrightarrow> Find a (StringSlice xs) op = Inr (last xs \<in> set a))
   \<and> Find a (StringValue s) op = Inr (s \<in> set a)
   \<and> Find a (StringValue s) op' = Find a (StringValue s) op"
  by (simp add: Find_def Find_string_mem Find_slice_not_or)

theorem Find_last_element_decides_witness:
  "[''q'', ''p''] \<noteq> [] \<and> ToLower ''AND'' \<noteq> ''or''
   \<and> Find [''p''] (StringSlice [''q'', ''p'']) ''AND'' = Inr True
   \<and> ''q'' \<notin> set [''p'']
   \<and> Find [''p''] (StringSlice [''p'', ''q'']) ''AND'' = Inr False
   \<and> Find [''p''] (StringValue ''p'') ''AND'' = Inr True
   \<and> Find [''p''] (StringValue ''p'') ''OR'' = Find [''p''] (StringValue ''p'') ''AND''"
  using Find_last_element_decides [of "[''q'', ''p'']" "''AND''" "[''p'']" "''p''" "''OR''"]
        Find_last_element_decides [of "[''p'', ''q'']" "''AND''" "[''p'']" "''p''" "''OR''"]
  by (simp add: ToLower_def toLower_byte_def)

section \<open>Properties of the rendering\<close>

lemma length_hex_byte: "length (hex_byte c) = 2"
  by (simp add: hex_byte_def)

lemma length_Sprintf_x: "length (Sprintf_x b) = 2 * length b"
  by (induction b) (simp_all add: Sprintf_x_def length_hex_byte)

lemma high_nibble_less: "unat (drop_bit 4 (c :: byte)) < 16"
proof -
  have "unat (drop_bit 4 c) = unat c div 2 ^ 4"
    by (simp add: unat_drop_bit_eq drop_bit_eq_div unat_div)
  moreover have "unat c < 2 ^ 8"
    using unsigned_less [of c] by simp
  ultimately show ?thesis by simp
qed

lemma low_nibble_less: "unat ((c :: byte) AND 0xF) < 16"
proof -
  have "c AND 0xF = take_bit 4 c"
    by (simp add: take_bit_eq_mask mask_eq_exp_minus_1)
  then have "unat (c AND 0xF) = take_bit 4 (unat c)"
    by (simp add: unsigned_take_bit_eq)
  also have "\<dots> < 2 ^ 4"
    by (rule take_bit_nat_less_exp)
  finally show ?thesis by simp
qed

lemma ldigits_nth: "n < 16 \<Longrightarrow> lower_hex (ldigits ! n)"
proof -
  assume "n < 16"
  then have "n < length ldigits" by (simp add: ldigits_def)
  then have "ldigits ! n \<in> set ldigits" by (rule nth_mem)
  then show ?thesis by (simp only: ldigits_def lower_hex_def)
qed

lemma lower_hex_hex_byte: "list_all lower_hex (hex_byte c)"
  using ldigits_nth [OF high_nibble_less, of c] ldigits_nth [OF low_nibble_less, of c]
  by (simp add: hex_byte_def)

lemma lower_hex_Sprintf_x: "list_all lower_hex (Sprintf_x b)"
  by (induction b) (simp_all add: Sprintf_x_def lower_hex_hex_byte)

lemma length_array_bytes: "length (array_bytes (w :: 'a::len word)) = LENGTH('a) div 8"
  by (simp add: array_bytes_def)

section \<open>Properties of Hash\<close>

lemma Hash_MD5:
  "Hash lib s MD5 = Inr (Sprintf_x (array_bytes (md5_Sum lib (bytes_of_string s))))"
  by (simp add: Hash_def)

lemma Hash_SHA1:
  "Hash lib s SHA1 = Inr (Sprintf_x (array_bytes (sha1_Sum lib (bytes_of_string s))))"
  by (simp add: Hash_def MD5_def SHA1_def)

lemma Hash_SHA256:
  "Hash lib s SHA256 = Inr (Sprintf_x (array_bytes (sha256_Sum256 lib (bytes_of_string s))))"
  by (simp add: Hash_def MD5_def SHA1_def SHA256_def)

lemma Hash_SHA512:
  "Hash lib s SHA512 = Inr (Sprintf_x (array_bytes (sha512_Sum512 lib (bytes_of_string s))))"
  by (simp add: Hash_def MD5_def SHA1_def SHA256_def SHA512_def)

text \<open>
  Claim C1. The claim asks that \<open>Hash\<close> fail with an explicit
  \<open>UnsupportedAlgorithm\<close> error on every selector outside MD5, SHA1, SHA256 and
  SHA512, and not crash. The code has no such error: on every such selector the
  handle stays nil and the call ends in the nil-dereference panic.
\<close>

theorem Hash_unsupported_selector_panics:
  "f \<notin> {MD5, SHA1, SHA256, SHA512} \<Longrightarrow> Hash lib s f = Inl NilDereference"
  by (simp add: Hash_def)

theorem Hash_unsupported_selector_panics_witness:
  "SHA224 \<notin> {MD5, SHA1, SHA256, SHA512} \<and> 0 \<notin> {MD5, SHA1, SHA256, SHA512}
   \<and> (\<forall>lib. Hash lib ''abc'' SHA224 = Inl NilDereference)
   \<and> (\<forall>lib. Hash lib [] 0 = Inl NilDereference)"
proof -
  have a: "SHA224 \<notin> {MD5, SHA1, SHA256, SHA512}"
    by (simp add: MD5_def SHA1_def SHA224_def SHA256_def SHA512_def)
  have b: "0 \<notin> {MD5, SHA1, SHA256, SHA512}"
    by (simp add: MD5_def SHA1_def SHA256_def SHA512_def)
  show ?thesis
    using a b Hash_unsupported_selector_panics [OF a, of _ "''abc''"]
      Hash_unsupported_selector_panics [OF b, of _ "[]"]
    by simp
qed

text \<open>
  Claim C3. For every input string and each of the selectors MD5, SHA1, SHA256 and
  SHA512, \<open>Hash\<close> returns the library's digest of the bytes of the input, rendered in
  lowercase hexadecimal digits, 32, 40, 64 and 128 of them. The result is a function of
  the input and the selector alone.
\<close>

theorem Hash_supported_hex_digest:
  "(\<exists>d. Hash lib s MD5 = Inr d
        \<and> d = Sprintf_x (array_bytes (md5_Sum lib (bytes_of_string s)))
        \<and> length d = 32 \<and> list_all lower_hex d)
   \<and> (\<exists>d. Hash lib s SHA1 = Inr d
        \<and> d = Sprintf_x (array_bytes (sha1_Sum lib (bytes_of_string s)))
        \<and> length d = 40 \<and> list_all lower_hex d)
   \<and> (\<exists>d. Hash lib s SHA256 = Inr d
        \<and> d = Sprintf_x (array_bytes (sha256_Sum256 lib (bytes_of_string s)))
        \<and> length d = 64 \<and> list_all lower_hex d)
   \<and> (\<exists>d. Hash lib s SHA512 = Inr d
        \<and> d = Sprintf_x (array_bytes (sha512_Sum512 lib (bytes_of_string s)))
        \<and> length d = 128 \<and> list_all lower_hex d)"
  by (simp add: Hash_MD5 Hash_SHA1 Hash_SHA256 Hash_SHA512 length_Sprintf_x
      length_array_bytes lower_hex_Sprintf_x)

section \<open>Properties of HashFNV\<close>

lemma sum64a_empty: "sum64a_Write offset64 (bytes_of_string []) = 0xcbf29ce484222325"
  by (simp add: bytes_of_string_def offset64_def)

lemma sum64a_a: "sum64a_Write offset64 (bytes_of_string ''a'') = 0xaf63dc4c8601ec8c"
  by (simp add: bytes_of_string_def offset64_def prime64_def)

lemma sum64a_zero: "sum64a_Write offset64 (bytes_of_string ''77kepQFQ8Kl'') = 0"
  by (simp add: bytes_of_string_def offset64_def prime64_def)

text \<open>
  Claim C2. The claim asks that \<open>HashFNV\<close> render the 64-bit FNV-1a hash of the
  input at a fixed width. The code converts the hash with \<open>string(...)\<close>, which reads
  it as a code point: the input \<open>77kepQFQ8Kl\<close>, whose hash is 0, gives the one byte
  \<open>0x00\<close>, while the empty string and \<open>a\<close>, whose hashes differ and are no code
  points, both give the three bytes of U+FFFD.
\<close>

theorem HashFNV_width_varies:
  "HashFNV ''77kepQFQ8Kl'' = [CHR 0x00]
   \<and> HashFNV [] = [CHR 0xEF, CHR 0xBF, CHR 0xBD]
   \<and> HashFNV ''a'' = [CHR 0xEF, CHR 0xBF, CHR 0xBD]
   \<and> length (HashFNV ''77kepQFQ8Kl'') \<noteq> length (HashFNV [])
   \<and> sum64a_Write offset64 (bytes_of_string ''a'') \<noteq> sum64a_Write offset64 (bytes_of_string [])"
  by (simp add: HashFNV_def sum64a_empty sum64a_a sum64a_zero string_of_uint64_def char_of_def)

section \<open>Properties of RandToken\<close>

lemma RandToken_buffer:
  "RandToken src =
     Sprintf_x (take 16 (delivered src) @ replicate (16 - length (delivered src)) 0)"
  by (cases "length (delivered src) \<le> 16")
    (simp_all add: RandToken_def rand_Read_def Let_def min_def)

lemma zero_token: "Sprintf_x (replicate 16 0) = ''00000000000000000000000000000000''"
  by (simp add: Sprintf_x_def hex_byte_def ldigits_def eval_nat_numeral)

text \<open>
  Claim C4, as amended. \<open>RandToken\<close> always returns 32 lowercase hexadecimal
  digits, the rendering of its 16-byte buffer after the read: the bytes the source
  delivered, and zero bytes where it delivered none. An error of the read is discarded
  and the token is returned all the same.
\<close>

theorem RandToken_always_32_hex:
  "length (RandToken src) = 32 \<and> list_all lower_hex (RandToken src)
   \<and> RandToken src =
       Sprintf_x (take 16 (delivered src) @ replicate (16 - length (delivered src)) 0)"
proof -
  have "length (RandToken src) = 32"
    by (simp add: RandToken_buffer length_Sprintf_x)
  moreover have "list_all lower_hex (RandToken src)"
    by (simp only: RandToken_buffer lower_hex_Sprintf_x)
  ultimately show ?thesis
    using RandToken_buffer by blast
qed

text \<open>
  Claim C4 as stated fails: when the source delivers nothing and the read returns an
  error, \<open>RandToken\<close> returns the token of sixteen zero bytes, the same string a
  successful read of sixteen zero bytes gives, so the caller cannot see the failure.
\<close>

theorem RandToken_failure_not_surfaced:
  "snd (snd (rand_Read \<lparr>delivered = [], failure = OtherError None None\<rparr> (replicate 16 0)))
     \<noteq> NilError
   \<and> snd (snd (rand_Read \<lparr>delivered = replicate 16 0, failure = NilError\<rparr> (replicate 16 0)))
     = NilError
   \<and> RandToken \<lparr>delivered = [], failure = OtherError None None\<rparr>
     = ''00000000000000000000000000000000''
   \<and> RandToken \<lparr>delivered = [], failure = OtherError None None\<rparr>
     = RandToken \<lparr>delivered = replicate 16 0, failure = NilError\<rparr>"
  by (simp add: RandToken_buffer rand_Read_def zero_token)

section \<open>Properties of Secret\<close>

text \<open>
  Claim C5. Both marshalling methods of \<open>Secret\<close> return nil for the empty string
  and the marker \<open><secret>\<close> for every other one (\<open>MarshalJSON\<close> as the JSON
  string, between double quotes), so the output never depends on the bytes of a
  non-empty secret.
\<close>

theorem Secret_marshal_redacts:
  "(s = [] \<longrightarrow> MarshalYAML s = (None, NilError) \<and> MarshalJSON s = (None, NilError))
   \<and> (s \<noteq> [] \<longrightarrow>
        MarshalYAML s = (Some ''<secret>'', NilError)
        \<and> MarshalJSON s = (Some [0x22, 0x3C, 0x73, 0x65, 0x63, 0x72, 0x65, 0x74, 0x3E, 0x22], NilError))
   \<and> (s \<noteq> [] \<and> s' \<noteq> [] \<longrightarrow> MarshalYAML s = MarshalYAML s' \<and> MarshalJSON s = MarshalJSON s')"
  by (simp add: MarshalYAML_def MarshalJSON_def bytes_of_string_def)

theorem Secret_marshal_redacts_witness:
  "MarshalYAML [] = (None, NilError) \<and> MarshalJSON [] = (None, NilError)
   \<and> ''x'' \<noteq> [] \<and> ''hunter2'' \<noteq> []
   \<and> MarshalYAML ''x'' = (Some ''<secret>'', NilError)
   \<and> MarshalJSON ''x'' = (Some (bytes_of_string (CHR 0x22 # ''<secret>'' @ [CHR 0x22])), NilError)
   \<and> MarshalYAML ''x'' = MarshalYAML ''hunter2''
   \<and> MarshalJSON ''x'' = MarshalJSON ''hunter2''"
  using Secret_marshal_redacts [of "[]" "[]"] Secret_marshal_redacts [of "''x''" "''hunter2''"]
  by (simp add: MarshalYAML_def MarshalJSON_def bytes_of_string_def)

section \<open>Properties of RetryableError\<close>

lemma Timeout_OpError:
  "Timeout (OpError op err) = Some (case Timeout err of Some t \<Rightarrow> t | None \<Rightarrow> Inr False)"
  by (cases err) simp_all

lemma Timeout_nil_free: "nil_free err \<Longrightarrow> Timeout err \<noteq> Some (Inl p)"
proof (induction err)
  case (OpError op err)
  then show ?case
    by (auto simp: Timeout_OpError split: option.splits)
next
  case (SyscallError sc err)
  then show ?case
    by (auto split: option.splits)
next
  case (OtherError t tmp)
  then show ?case by (cases t) simp_all
qed simp_all

lemma timeout_test_nil_free: "nil_free err \<Longrightarrow> timeout_test err \<noteq> Inl p"
  using Timeout_nil_free [of err p] by (auto simp: timeout_test_def split: option.splits)

lemma flagged_timeout_test: "flagged_timeout err = (timeout_test err = Inr True)"
  by (auto simp: flagged_timeout_def timeout_test_def split: option.splits)

lemma non_timeout_nil_free: "nil_free err \<Longrightarrow> non_timeout err = (\<not> flagged_timeout err)"
proof -
  assume "nil_free err"
  then have "\<forall>p. timeout_test err \<noteq> Inl p"
    by (simp add: timeout_test_nil_free)
  then show ?thesis
    by (cases "timeout_test err") (auto simp: non_timeout_def flagged_timeout_test)
qed

lemma timeout_test_NilOpError: "timeout_test NilOpError = Inl NilDereference"
  by (simp add: timeout_test_def)

lemma RetryableError_flagged: "flagged_timeout err \<Longrightarrow> RetryableError err = Inr True"
  by (simp add: RetryableError_def flagged_timeout_test)

lemma RetryableError_non_timeout:
  "non_timeout err \<Longrightarrow>
     RetryableError err = Inr (op_kind err = Some ''read'' \<or> err = Errno ECONNREFUSED)"
  using timeout_test_NilOpError
  by (cases err) (auto simp: RetryableError_def non_timeout_def)



text \<open>
  Claim C6. Every failure flagged as a timeout is retryable, whatever its
  operation-kind tag and error code; so is a timeout of a \<open>dial\<close>.
\<close>

theorem timeout_is_retryable:
  "(flagged_timeout err \<longrightarrow> RetryableError err = Inr True)
   \<and> RetryableError (OpError op (SyscallError sc (Errno ETIMEDOUT))) = Inr True
   \<and> RetryableError (OpError op (Errno EAGAIN)) = Inr True
   \<and> RetryableError (Errno ETIMEDOUT) = Inr True"
  by (simp add: RetryableError_flagged flagged_timeout_def)

theorem timeout_is_retryable_witness:
  "flagged_timeout (OpError ''dial'' (SyscallError ''connect'' (Errno ETIMEDOUT)))
   \<and> op_kind (OpError ''dial'' (SyscallError ''connect'' (Errno ETIMEDOUT))) = Some ''dial''
   \<and> RetryableError (OpError ''dial'' (SyscallError ''connect'' (Errno ETIMEDOUT))) = Inr True"
proof -
  have t: "flagged_timeout (OpError ''dial'' (SyscallError ''connect'' (Errno ETIMEDOUT)))"
    by (simp add: flagged_timeout_def)
  show ?thesis
    using t timeout_is_retryable [of "OpError ''dial'' (SyscallError ''connect'' (Errno ETIMEDOUT))"]
    by simp
qed

text \<open>
  Claim C7. A non-timeout failure that carries an operation-kind tag is not retryable
  when the tag is \<open>dial\<close> and retryable when it is \<open>read\<close>. (On an error value
  without nil pointers, a non-timeout failure is one that is not flagged as a timeout.)
\<close>

theorem dial_rejected_read_accepted:
  "non_timeout err \<Longrightarrow>
     (op_kind err = Some ''dial'' \<longrightarrow> RetryableError err = Inr False)
     \<and> (op_kind err = Some ''read'' \<longrightarrow> RetryableError err = Inr True)"
  by (cases err) (auto simp: RetryableError_non_timeout)

theorem dial_rejected_read_accepted_witness:
  "non_timeout (OpError ''dial'' (SyscallError ''connect'' (Errno ECONNREFUSED)))
   \<and> \<not> flagged_timeout (OpError ''dial'' (SyscallError ''connect'' (Errno ECONNREFUSED)))
   \<and> RetryableError (OpError ''dial'' (SyscallError ''connect'' (Errno ECONNREFUSED))) = Inr False
   \<and> non_timeout (OpError ''read'' (SyscallError ''read'' (Errno ECONNRESET)))
   \<and> \<not> flagged_timeout (OpError ''read'' (SyscallError ''read'' (Errno ECONNRESET)))
   \<and> RetryableError (OpError ''read'' (SyscallError ''read'' (Errno ECONNRESET))) = Inr True"
proof -
  have d: "non_timeout (OpError ''dial'' (SyscallError ''connect'' (Errno ECONNREFUSED)))"
    by (simp add: non_timeout_def timeout_test_def
        ECONNREFUSED_def EAGAIN_def EWOULDBLOCK_def ETIMEDOUT_def)
  have r: "non_timeout (OpError ''read'' (SyscallError ''read'' (Errno ECONNRESET)))"
    by (simp add: non_timeout_def timeout_test_def
        ECONNRESET_def EAGAIN_def EWOULDBLOCK_def ETIMEDOUT_def)
  show ?thesis
    using d r dial_rejected_read_accepted [OF d] dial_rejected_read_accepted [OF r]
    by (simp add: non_timeout_nil_free)
qed

text \<open>
  Claim C8 as stated fails: a failure that is not a timeout, is tagged \<open>other\<close> (or
  \<open>write\<close>) and whose error code is \<open>ECONNREFUSED\<close> is a \<open>*net.OpError\<close>, for which
  the switch never looks at the code, and it is classified false.
\<close>

theorem tagged_conn_refused_not_retryable:
  "non_timeout (OpError ''other'' (Errno ECONNREFUSED))
   \<and> \<not> flagged_timeout (OpError ''other'' (Errno ECONNREFUSED))
   \<and> op_kind (OpError ''other'' (Errno ECONNREFUSED)) = Some ''other''
   \<and> os_code (OpError ''other'' (Errno ECONNREFUSED)) = Some ECONNREFUSED
   \<and> RetryableError (OpError ''other'' (Errno ECONNREFUSED)) = Inr False
   \<and> RetryableError (OpError ''write'' (SyscallError ''write'' (Errno ECONNREFUSED))) = Inr False"
  by (simp add: RetryableError_def non_timeout_def timeout_test_def flagged_timeout_def
      ECONNREFUSED_def EAGAIN_def EWOULDBLOCK_def ETIMEDOUT_def)

text \<open>
  Claim C8, as amended. A non-timeout failure whose operation-kind is neither
  \<open>dial\<close> nor \<open>read\<close> is retryable exactly when it is itself the error number
  \<open>ECONNREFUSED\<close>, which carries no operation-kind tag.
\<close>

theorem bare_conn_refused_retryable:
  "non_timeout err \<Longrightarrow> op_kind err \<noteq> Some ''dial'' \<Longrightarrow> op_kind err \<noteq> Some ''read'' \<Longrightarrow>
     RetryableError err = Inr (err = Errno ECONNREFUSED)"
  by (simp add: RetryableError_non_timeout)

theorem bare_conn_refused_retryable_witness:
  "non_timeout (Errno ECONNREFUSED)
   \<and> \<not> flagged_timeout (Errno ECONNREFUSED)
   \<and> op_kind (Errno ECONNREFUSED) = None
   \<and> os_code (Errno ECONNREFUSED) = Some ECONNREFUSED
   \<and> RetryableError (Errno ECONNREFUSED) = Inr True"
proof -
  have t: "non_timeout (Errno ECONNREFUSED)"
    by (simp add: non_timeout_def timeout_test_def
        ECONNREFUSED_def EAGAIN_def EWOULDBLOCK_def ETIMEDOUT_def)
  show ?thesis
    using t bare_conn_refused_retryable [OF t] by (simp add: non_timeout_nil_free)
qed




end
